theory Spec2Isabelle
  imports Complex_Main
begin

section \<open>JavaScript values\<close>

text \<open>
  The module \<open>src/utils/wallIO.ts\<close> validates the result of \<open>JSON.parse\<close>, which is an
  untyped JavaScript value. A number is an IEEE double: either finite, or one of the three
  non-finite values. The finite doubles are a subset of the rationals, and the code only
  asks whether a number is finite and whether it is greater than zero, so a finite number
  is modelled by its rational value.
\<close>

datatype jsnum = Fin rat | PosInf | NegInf | NaN

text \<open>
  An object is the list of its own properties in insertion order (keys are distinct in a
  real object; a read finds the first entry). A property can be present and hold
  \<open>undefined\<close>, which is different from the property being absent for the \<open>in\<close> operator.
\<close>

datatype jsval =
    JUndefined
  | JNull
  | JBool bool
  | JNum jsnum
  | JStr string
  | JArr "jsval list"
  | JObj "(string \<times> jsval) list"

text \<open>The \<open>typeof\<close> operator. Arrays and \<open>null\<close> both answer \<open>"object"\<close>.\<close>

fun typeof :: "jsval \<Rightarrow> string" where
  "typeof JUndefined = ''undefined''"
| "typeof JNull = ''object''"
| "typeof (JBool b) = ''boolean''"
| "typeof (JNum n) = ''number''"
| "typeof (JStr s) = ''string''"
| "typeof (JArr xs) = ''object''"
| "typeof (JObj kvs) = ''object''"

text \<open>\<open>Number.isFinite\<close>: true for a number that is neither infinite nor NaN.\<close>

fun Number_isFinite :: "jsval \<Rightarrow> bool" where
  "Number_isFinite (JNum (Fin r)) = True"
| "Number_isFinite v = False"

text \<open>
  The comparison \<open>value > 0\<close>. The code evaluates it only behind \<open>isNumber\<close>, on a
  number; on the other values the model answers \<open>False\<close>.
\<close>

fun js_gt_zero :: "jsval \<Rightarrow> bool" where
  "js_gt_zero (JNum (Fin r)) = (0 < r)"
| "js_gt_zero (JNum PosInf) = True"
| "js_gt_zero v = False"

text \<open>
  A property read \<open>value.key\<close>. The module reads properties only behind \<open>isRecord\<close>,
  that is on objects and arrays, and only the fixed keys \<open>settings\<close>, \<open>posters\<close>,
  \<open>wallWidth\<close>, \<open>wallHeight\<close>, \<open>background\<close>, \<open>showGrid\<close>, \<open>gridStep\<close>,
  \<open>gridColor\<close>, \<open>id\<close>, \<open>sizeId\<close>, \<open>x\<close>, \<open>y\<close>, \<open>width\<close>, \<open>height\<close>, \<open>label\<close> and
  \<open>imageSrc\<close>. None of them is an array index, \<open>length\<close> or a member of
  \<open>Object.prototype\<close> or \<open>Array.prototype\<close>, so on an array every such read is
  \<open>undefined\<close>, and on an object it is the own property or \<open>undefined\<close>.
\<close>

fun js_get :: "jsval \<Rightarrow> string \<Rightarrow> jsval" where
  "js_get (JObj kvs) k = (case map_of kvs k of Some v \<Rightarrow> v | None \<Rightarrow> JUndefined)"
| "js_get v k = JUndefined"

text \<open>The operator \<open>key in value\<close>, for the same keys.\<close>

fun js_in :: "string \<Rightarrow> jsval \<Rightarrow> bool" where
  "js_in k (JObj kvs) = (map_of kvs k \<noteq> None)"
| "js_in k v = False"

text \<open>\<open>Array.isArray\<close> and the elements of an array.\<close>

fun Array_isArray :: "jsval \<Rightarrow> bool" where
  "Array_isArray (JArr xs) = True"
| "Array_isArray v = False"

fun array_elems :: "jsval \<Rightarrow> jsval list" where
  "array_elems (JArr xs) = xs"
| "array_elems v = []"

text \<open>
  Truthiness, as the operator \<open>!\<close> sees it: \<open>undefined\<close>, \<open>null\<close>, \<open>false\<close>, zero,
  NaN and the empty string are falsy.
\<close>

fun js_truthy :: "jsval \<Rightarrow> bool" where
  "js_truthy JUndefined = False"
| "js_truthy JNull = False"
| "js_truthy (JBool b) = b"
| "js_truthy (JNum (Fin r)) = (r \<noteq> 0)"
| "js_truthy (JNum NaN) = False"
| "js_truthy (JNum n) = True"
| "js_truthy (JStr s) = (s \<noteq> [])"
| "js_truthy (JArr xs) = True"
| "js_truthy (JObj kvs) = True"

section \<open>The type guards of wallIO.ts\<close>

definition isRecord :: "jsval \<Rightarrow> bool" where
  "isRecord v \<longleftrightarrow> typeof v = ''object'' \<and> v \<noteq> JNull"

definition isNumber :: "jsval \<Rightarrow> bool" where
  "isNumber v \<longleftrightarrow> typeof v = ''number'' \<and> Number_isFinite v"

definition isPositiveNumber :: "jsval \<Rightarrow> bool" where
  "isPositiveNumber v \<longleftrightarrow> isNumber v \<and> js_gt_zero v"

definition isString :: "jsval \<Rightarrow> bool" where
  "isString v \<longleftrightarrow> typeof v = ''string''"

definition isBoolean :: "jsval \<Rightarrow> bool" where
  "isBoolean v \<longleftrightarrow> typeof v = ''boolean''"

definition isSettings :: "jsval \<Rightarrow> bool" where
  "isSettings v \<longleftrightarrow>
     (if \<not> isRecord v then False
      else isPositiveNumber (js_get v ''wallWidth'') \<and>
           isPositiveNumber (js_get v ''wallHeight'') \<and>
           isString (js_get v ''background'') \<and>
           isBoolean (js_get v ''showGrid'') \<and>
           isPositiveNumber (js_get v ''gridStep'') \<and>
           isString (js_get v ''gridColor''))"

definition isPoster :: "jsval \<Rightarrow> bool" where
  "isPoster v \<longleftrightarrow>
     (if \<not> isRecord v then False
      else if \<not> isString (js_get v ''id'') \<or>
              \<not> isString (js_get v ''sizeId'') \<or>
              \<not> isNumber (js_get v ''x'') \<or>
              \<not> isNumber (js_get v ''y'') \<or>
              \<not> isPositiveNumber (js_get v ''width'') \<or>
              \<not> isPositiveNumber (js_get v ''height'') \<or>
              \<not> isString (js_get v ''label'')
           then False
      else if js_in ''imageSrc'' v \<and> js_get v ''imageSrc'' \<noteq> JUndefined
           then isString (js_get v ''imageSrc'')
      else True)"

section \<open>parseWallData\<close>

datatype ParseWallError =
  Empty | InvalidJson | InvalidRoot | InvalidSettings | InvalidPosters

text \<open>
  \<open>WallData\<close> as \<open>parseWallData\<close> builds it: the two values taken from the parsed
  object, unchanged. \<open>posters\<close> is the array value itself.
\<close>

record WallData =
  settings :: jsval
  posters :: jsval

record ParseWallResult =
  data :: "WallData option"
  error :: "ParseWallError option"

text \<open>
  \<open>String.prototype.trim\<close> removes white space and line terminators from both ends.
  A \<open>string\<close> here is a list of 8-bit characters, read as the code units U+0000 to
  U+00FF; among those, the characters that \<open>trim\<close> removes are TAB, LF, VT, FF, CR, SPACE
  and NO-BREAK SPACE.
\<close>

definition is_js_whitespace :: "char \<Rightarrow> bool" where
  "is_js_whitespace c \<longleftrightarrow> (of_char c :: nat) \<in> {9, 10, 11, 12, 13, 32, 160}"

definition trim :: "string \<Rightarrow> string" where
  "trim s = rev (dropWhile is_js_whitespace (rev (dropWhile is_js_whitespace s)))"

text \<open>
  \<open>JSON.parse\<close> belongs to the JavaScript runtime, not to this repository: it is the
  parameter \<open>JSON_parse\<close>, which returns \<open>None\<close> where \<open>JSON.parse\<close> throws. Every
  theorem about \<open>parseWallData\<close> below holds for whatever \<open>JSON_parse\<close> does.
\<close>

definition parseWallData :: "(string \<Rightarrow> jsval option) \<Rightarrow> string \<Rightarrow> ParseWallResult" where
  "parseWallData JSON_parse jsonText =
     (let trimmed = trim jsonText in
      if trimmed = [] then \<lparr>data = None, error = Some Empty\<rparr>
      else case JSON_parse trimmed of
        None \<Rightarrow> \<lparr>data = None, error = Some InvalidJson\<rparr>
      | Some parsed \<Rightarrow>
          if \<not> isRecord parsed then \<lparr>data = None, error = Some InvalidRoot\<rparr>
          else
            let settingsV = js_get parsed ''settings'';
                postersV = js_get parsed ''posters''
            in if \<not> isSettings settingsV then \<lparr>data = None, error = Some InvalidSettings\<rparr>
               else if \<not> Array_isArray postersV \<or> \<not> list_all isPoster (array_elems postersV)
               then \<lparr>data = None, error = Some InvalidPosters\<rparr>
               else \<lparr>data = Some \<lparr>settings = settingsV, posters = postersV\<rparr>, error = None\<rparr>)"

section \<open>loadPosterImages\<close>

text \<open>
  \<open>loadPosterImages\<close> walks the posters in order. A poster whose \<open>imageSrc\<close> is falsy is
  skipped; for every other poster it calls \<open>loadImageFromSrc\<close> with the \<open>imageSrc\<close>, and
  when that promise resolves with an image it calls \<open>onImageLoad\<close> with the poster's
  \<open>id\<close> and the image; a rejection is swallowed. Whether a load resolves is the host's
  business: the parameter gives, for the n-th call and its argument, the image or \<open>None\<close>
  (rejected, or never settled). The model records the arguments of the calls to
  \<open>loadImageFromSrc\<close>, in call order, and the arguments of the calls to \<open>onImageLoad\<close>,
  listed in poster order (the host decides the order in which they really happen).
\<close>

record 'img LoadTrace =
  requested :: "jsval list"
  callbacks :: "(jsval \<times> 'img) list"

definition loadPosterImages :: "(nat \<Rightarrow> jsval \<Rightarrow> 'img option) \<Rightarrow> jsval list \<Rightarrow> 'img LoadTrace" where
  "loadPosterImages loadImageFromSrc posterList =
     (let loading = filter (\<lambda>poster. js_truthy (js_get poster ''imageSrc'')) posterList
      in \<lparr>requested = map (\<lambda>poster. js_get poster ''imageSrc'') loading,
          callbacks = concat (map (\<lambda>(n, poster).
             case loadImageFromSrc n (js_get poster ''imageSrc'') of
               Some img \<Rightarrow> [(js_get poster ''id'', img)]
             | None \<Rightarrow> []) (enumerate 0 loading))\<rparr>)"

section \<open>The typed view: Settings, WallPoster and the wall document\<close>

text \<open>
  The TypeScript types of \<open>App.tsx\<close>. A \<open>number\<close> field can hold any double, also a
  non-finite one. \<open>imageSrc\<close> is optional: \<open>None\<close> is a poster whose \<open>imageSrc\<close> reads
  as \<open>undefined\<close>, whether the property is absent or holds \<open>undefined\<close>.
\<close>

record Settings =
  wallWidth :: jsnum
  wallHeight :: jsnum
  background :: string
  showGrid :: bool
  gridStep :: jsnum
  gridColor :: string

record WallPoster =
  poster_id :: string
  poster_sizeId :: string
  poster_x :: jsnum
  poster_y :: jsnum
  poster_width :: jsnum
  poster_height :: jsnum
  poster_label :: string
  poster_imageSrc :: "string option"

record WallDocument =
  doc_settings :: Settings
  doc_posters :: "WallPoster list"

text \<open>A real object: its keys are distinct.\<close>

definition js_object :: "jsval \<Rightarrow> bool" where
  "js_object v \<longleftrightarrow> (case v of JObj kvs \<Rightarrow> distinct (map fst kvs) | _ \<Rightarrow> False)"

text \<open>
  When a JavaScript value is a given typed value in memory: it is an object and each
  field reads as the typed value's field. Other properties and the order of the keys are
  free.
\<close>

definition represents_Settings :: "jsval \<Rightarrow> Settings \<Rightarrow> bool" where
  "represents_Settings v s \<longleftrightarrow>
     js_object v \<and>
     js_get v ''wallWidth'' = JNum (wallWidth s) \<and>
     js_get v ''wallHeight'' = JNum (wallHeight s) \<and>
     js_get v ''background'' = JStr (background s) \<and>
     js_get v ''showGrid'' = JBool (showGrid s) \<and>
     js_get v ''gridStep'' = JNum (gridStep s) \<and>
     js_get v ''gridColor'' = JStr (gridColor s)"

definition represents_WallPoster :: "jsval \<Rightarrow> WallPoster \<Rightarrow> bool" where
  "represents_WallPoster v p \<longleftrightarrow>
     js_object v \<and>
     js_get v ''id'' = JStr (poster_id p) \<and>
     js_get v ''sizeId'' = JStr (poster_sizeId p) \<and>
     js_get v ''x'' = JNum (poster_x p) \<and>
     js_get v ''y'' = JNum (poster_y p) \<and>
     js_get v ''width'' = JNum (poster_width p) \<and>
     js_get v ''height'' = JNum (poster_height p) \<and>
     js_get v ''label'' = JStr (poster_label p) \<and>
     js_get v ''imageSrc'' = (case poster_imageSrc p of None \<Rightarrow> JUndefined | Some src \<Rightarrow> JStr src)"

definition represents_WallDocument :: "jsval \<Rightarrow> WallDocument \<Rightarrow> bool" where
  "represents_WallDocument v d \<longleftrightarrow>
     js_object v \<and>
     represents_Settings (js_get v ''settings'') (doc_settings d) \<and>
     Array_isArray (js_get v ''posters'') \<and>
     list_all2 represents_WallPoster (array_elems (js_get v ''posters'')) (doc_posters d)"

fun finite_num :: "jsnum \<Rightarrow> bool" where
  "finite_num (Fin r) = True"
| "finite_num n = False"

fun finite_positive_num :: "jsnum \<Rightarrow> bool" where
  "finite_positive_num (Fin r) = (0 < r)"
| "finite_positive_num n = False"

text \<open>
  A valid document, by the numeric part of the spec's data model: the wall's width, height
  and grid step and every poster's width and height are finite and greater than zero, and
  every poster's position is finite. (The data model also asks for non-empty colours and
  distinct identifiers; the round trip needs neither.)
\<close>

definition valid_Settings :: "Settings \<Rightarrow> bool" where
  "valid_Settings s \<longleftrightarrow>
     finite_positive_num (wallWidth s) \<and> finite_positive_num (wallHeight s) \<and>
     finite_positive_num (gridStep s)"

definition valid_WallPoster :: "WallPoster \<Rightarrow> bool" where
  "valid_WallPoster p \<longleftrightarrow>
     finite_num (poster_x p) \<and> finite_num (poster_y p) \<and>
     finite_positive_num (poster_width p) \<and> finite_positive_num (poster_height p)"

definition valid_WallDocument :: "WallDocument \<Rightarrow> bool" where
  "valid_WallDocument d \<longleftrightarrow> valid_Settings (doc_settings d) \<and> list_all valid_WallPoster (doc_posters d)"

text \<open>
  \<open>JSON.stringify\<close> and \<open>JSON.parse\<close> belong to the runtime. What ECMAScript promises of
  them together, for a value built from objects, arrays, strings, numbers, booleans and
  \<open>null\<close>, is that parsing the text of a value gives the value back with every property
  that holds \<open>undefined\<close> left out, every \<open>undefined\<close> array element and every
  non-finite number replaced by \<open>null\<close>.
\<close>

fun json_image :: "jsval \<Rightarrow> jsval" where
  "json_image (JNum (Fin r)) = JNum (Fin r)"
| "json_image (JNum n) = JNull"
| "json_image (JArr xs) = JArr (map (\<lambda>v. if v = JUndefined then JNull else json_image v) xs)"
| "json_image (JObj kvs) =
     JObj (map (\<lambda>(k, v). (k, json_image v)) (filter (\<lambda>(k, v). v \<noteq> JUndefined) kvs))"
| "json_image v = v"

section \<open>The specification's words\<close>

text \<open>An own property of an object, and a field that is present and has the right kind.\<close>

definition own_property :: "jsval \<Rightarrow> string \<Rightarrow> jsval option" where
  "own_property v k = (case v of JObj kvs \<Rightarrow> map_of kvs k | _ \<Rightarrow> None)"

definition field_is :: "jsval \<Rightarrow> string \<Rightarrow> (jsval \<Rightarrow> bool) \<Rightarrow> bool" where
  "field_is v k P = (case own_property v k of Some x \<Rightarrow> P x | None \<Rightarrow> False)"

definition a_string :: "jsval \<Rightarrow> bool" where
  "a_string v = (case v of JStr s \<Rightarrow> True | _ \<Rightarrow> False)"

definition a_nonempty_string :: "jsval \<Rightarrow> bool" where
  "a_nonempty_string v = (case v of JStr s \<Rightarrow> s \<noteq> [] | _ \<Rightarrow> False)"

definition a_boolean :: "jsval \<Rightarrow> bool" where
  "a_boolean v = (case v of JBool b \<Rightarrow> True | _ \<Rightarrow> False)"

definition a_finite_number :: "jsval \<Rightarrow> bool" where
  "a_finite_number v = (case v of JNum n \<Rightarrow> finite_num n | _ \<Rightarrow> False)"

definition a_finite_positive_number :: "jsval \<Rightarrow> bool" where
  "a_finite_positive_number v = (case v of JNum n \<Rightarrow> finite_positive_num n | _ \<Rightarrow> False)"

text \<open>A parsed value that is a string, a number, a boolean or \<open>null\<close>.\<close>

definition a_scalar_or_null :: "jsval \<Rightarrow> bool" where
  "a_scalar_or_null v =
     (case v of JNull \<Rightarrow> True | JBool b \<Rightarrow> True | JNum n \<Rightarrow> True | JStr s \<Rightarrow> True | _ \<Rightarrow> False)"

text \<open>Settings validity as the specification words it.\<close>

definition spec_settings_valid :: "jsval \<Rightarrow> bool" where
  "spec_settings_valid v \<longleftrightarrow>
     field_is v ''wallWidth'' a_finite_positive_number \<and>
     field_is v ''wallHeight'' a_finite_positive_number \<and>
     field_is v ''background'' a_string \<and>
     field_is v ''showGrid'' a_boolean \<and>
     field_is v ''gridStep'' a_finite_positive_number \<and>
     field_is v ''gridColor'' a_string"

text \<open>
  Poster validity as the specification words it. The image field is absent, or holds
  \<open>undefined\<close>, or holds a string.
\<close>

definition spec_image_ok :: "jsval \<Rightarrow> bool" where
  "spec_image_ok v =
     (case own_property v ''imageSrc'' of
        None \<Rightarrow> True
      | Some JUndefined \<Rightarrow> True
      | Some (JStr s) \<Rightarrow> True
      | Some _ \<Rightarrow> False)"

definition spec_poster_valid :: "jsval \<Rightarrow> bool" where
  "spec_poster_valid v \<longleftrightarrow>
     field_is v ''id'' a_string \<and>
     field_is v ''sizeId'' a_string \<and>
     field_is v ''label'' a_string \<and>
     field_is v ''x'' a_finite_number \<and>
     field_is v ''y'' a_finite_number \<and>
     field_is v ''width'' a_finite_positive_number \<and>
     field_is v ''height'' a_finite_positive_number \<and>
     spec_image_ok v"

text \<open>
  The five reasons as the specification words them, each as a condition of its own on the
  input; several can hold of one input. The root is invalid when the parsed value is not
  a non-null structured object, that is when it is an array, a string, a number, a
  boolean or \<open>null\<close>; the settings are invalid when the \<open>settings\<close> field is not
  valid settings; the posters are invalid when the \<open>posters\<close> field is not an array or
  one of its elements is not a valid poster.
\<close>

definition a_structured_object :: "jsval \<Rightarrow> bool" where
  "a_structured_object v = (case v of JObj kvs \<Rightarrow> True | _ \<Rightarrow> False)"

fun reason_applies :: "(string \<Rightarrow> jsval option) \<Rightarrow> string \<Rightarrow> ParseWallError \<Rightarrow> bool" where
  "reason_applies JSON_parse s Empty = (trim s = [])"
| "reason_applies JSON_parse s InvalidJson = (JSON_parse (trim s) = None)"
| "reason_applies JSON_parse s InvalidRoot =
     (case JSON_parse (trim s) of None \<Rightarrow> False | Some v \<Rightarrow> \<not> a_structured_object v)"
| "reason_applies JSON_parse s InvalidSettings =
     (case JSON_parse (trim s) of None \<Rightarrow> False
      | Some v \<Rightarrow> \<not> spec_settings_valid (js_get v ''settings''))"
| "reason_applies JSON_parse s InvalidPosters =
     (case JSON_parse (trim s) of None \<Rightarrow> False
      | Some v \<Rightarrow> \<not> (Array_isArray (js_get v ''posters'') \<and>
                      list_all spec_poster_valid (array_elems (js_get v ''posters''))))"

text \<open>The trimmed input parses to an array.\<close>

definition parses_to_array :: "(string \<Rightarrow> jsval option) \<Rightarrow> string \<Rightarrow> bool" where
  "parses_to_array JSON_parse s =
     (case JSON_parse (trim s) of None \<Rightarrow> False | Some v \<Rightarrow> Array_isArray v)"

text \<open>
  The WallSettings invariant of the data model (numeric fields finite and greater than
  zero, colour fields non-empty strings), and the same with colours that may be empty.
\<close>

definition WallSettings_invariant :: "jsval \<Rightarrow> bool" where
  "WallSettings_invariant v \<longleftrightarrow>
     field_is v ''wallWidth'' a_finite_positive_number \<and>
     field_is v ''wallHeight'' a_finite_positive_number \<and>
     field_is v ''gridStep'' a_finite_positive_number \<and>
     field_is v ''background'' a_nonempty_string \<and>
     field_is v ''gridColor'' a_nonempty_string"

definition WallSettings_string_colours :: "jsval \<Rightarrow> bool" where
  "WallSettings_string_colours v \<longleftrightarrow>
     field_is v ''wallWidth'' a_finite_positive_number \<and>
     field_is v ''wallHeight'' a_finite_positive_number \<and>
     field_is v ''gridStep'' a_finite_positive_number \<and>
     field_is v ''background'' a_string \<and>
     field_is v ''gridColor'' a_string"

text \<open>The identifiers of the posters of a document, in order.\<close>

definition poster_ids :: "jsval \<Rightarrow> jsval list" where
  "poster_ids postersV = map (\<lambda>poster. js_get poster ''id'') (array_elems postersV)"

section \<open>Sample documents\<close>

text \<open>
  Some texts and the values \<open>JSON.parse\<close> returns on them. \<open>sample_JSON_parse\<close> is
  \<open>JSON.parse\<close> cut down to these texts; the theorems hold for every \<open>JSON_parse\<close>, and
  the instances below evaluate them on this one.
\<close>

definition sample_settings :: jsval where
  "sample_settings =
     JObj [(''wallWidth'', JNum (Fin 1400)), (''wallHeight'', JNum (Fin 800)),
           (''background'', JStr ''#fff''), (''showGrid'', JBool True),
           (''gridStep'', JNum (Fin 20)), (''gridColor'', JStr ''#eee'')]"

definition blank_settings :: jsval where
  "blank_settings =
     JObj [(''wallWidth'', JNum (Fin 1400)), (''wallHeight'', JNum (Fin 800)),
           (''background'', JStr []), (''showGrid'', JBool True),
           (''gridStep'', JNum (Fin 20)), (''gridColor'', JStr ''#eee'')]"

definition sample_poster_fields :: "(string \<times> jsval) list" where
  "sample_poster_fields =
     [(''id'', JStr ''p1''), (''sizeId'', JStr ''s1''),
      (''x'', JNum (Fin 10)), (''y'', JNum (Fin 10)),
      (''width'', JNum (Fin 100)), (''height'', JNum (Fin 150)),
      (''label'', JStr ''A'')]"

definition sample_poster :: jsval where
  "sample_poster = JObj sample_poster_fields"

definition sample_text :: string where
  \<open>sample_text = ''{"settings":{"wallWidth":1400,"wallHeight":800,"background":"#fff","showGrid":true,"gridStep":20,"gridColor":"#eee"},"posters":[{"id":"p1","sizeId":"s1","x":10,"y":10,"width":100,"height":150,"label":"A"}]}''\<close>

definition twin_text :: string where
  \<open>twin_text = ''{"settings":{"wallWidth":1400,"wallHeight":800,"background":"#fff","showGrid":true,"gridStep":20,"gridColor":"#eee"},"posters":[{"id":"p1","sizeId":"s1","x":10,"y":10,"width":100,"height":150,"label":"A"},{"id":"p1","sizeId":"s1","x":10,"y":10,"width":100,"height":150,"label":"A"}]}''\<close>

definition bare_text :: string where
  \<open>bare_text = ''{"settings":{"wallWidth":1400,"wallHeight":800,"background":"#fff","showGrid":true,"gridStep":20,"gridColor":"#eee"},"posters":[]}''\<close>

text \<open>The text \<open>JSON.stringify(data, null, 2)\<close> gives for the one-poster document.\<close>

fun join_lines :: "string list \<Rightarrow> string" where
  "join_lines [] = []"
| "join_lines [l] = l"
| "join_lines (l # ls) = l @ CHR 0x0A # join_lines ls"

definition pretty_text :: string where
  \<open>pretty_text = join_lines
     [''{'',
      ''  "settings": {'',
      ''    "wallWidth": 1400,'',
      ''    "wallHeight": 800,'',
      ''    "background": "#fff",'',
      ''    "showGrid": true,'',
      ''    "gridStep": 20,'',
      ''    "gridColor": "#eee"'',
      ''  },'',
      ''  "posters": ['',
      ''    {'',
      ''      "id": "p1",'',
      ''      "sizeId": "s1",'',
      ''      "x": 10,'',
      ''      "y": 10,'',
      ''      "width": 100,'',
      ''      "height": 150,'',
      ''      "label": "A"'',
      ''    }'',
      ''  ]'',
      ''}'']\<close>

definition sample_JSON_parse :: "string \<Rightarrow> jsval option" where
  \<open>sample_JSON_parse =
     map_of [(''[]'', JArr []),
             (''null'', JNull),
             (''{}'', JObj []),
             (''{"settings":null,"posters":null}'',
                JObj [(''settings'', JNull), (''posters'', JNull)]),
             (sample_text,
                JObj [(''settings'', sample_settings), (''posters'', JArr [sample_poster])]),
             (twin_text,
                JObj [(''settings'', sample_settings),
                      (''posters'', JArr [sample_poster, sample_poster])]),
             (bare_text,
                JObj [(''settings'', sample_settings), (''posters'', JArr [])]),
             (pretty_text,
                JObj [(''settings'', sample_settings), (''posters'', JArr [sample_poster])])]\<close>

text \<open>
  A document in memory whose poster holds \<open>undefined\<close> in \<open>imageSrc\<close>, the typed
  document it is, and \<open>JSON.stringify\<close> cut down to it: the indented text leaves the
  \<open>undefined\<close> property out.
\<close>

definition memory_document :: jsval where
  "memory_document =
     JObj [(''settings'', sample_settings),
           (''posters'', JArr [JObj (sample_poster_fields @ [(''imageSrc'', JUndefined)])])]"

definition typed_document :: WallDocument where
  "typed_document =
     \<lparr>doc_settings =
        \<lparr>wallWidth = Fin 1400, wallHeight = Fin 800, background = ''#fff'',
         showGrid = True, gridStep = Fin 20, gridColor = ''#eee''\<rparr>,
      doc_posters =
        [\<lparr>poster_id = ''p1'', poster_sizeId = ''s1'', poster_x = Fin 10, poster_y = Fin 10,
          poster_width = Fin 100, poster_height = Fin 150, poster_label = ''A'',
          poster_imageSrc = None\<rparr>]\<rparr>"

definition sample_JSON_stringify :: "jsval \<Rightarrow> string" where
  "sample_JSON_stringify v = (if v = memory_document then pretty_text else [])"

text \<open>Posters off the wall, with an empty image and with an image.\<close>

definition offwall_poster_fields :: "(string \<times> jsval) list" where
  "offwall_poster_fields =
     [(''id'', JStr ''p2''), (''sizeId'', JStr ''gone''),
      (''x'', JNum (Fin (- 25))), (''y'', JNum (Fin 0)),
      (''width'', JNum (Fin 100)), (''height'', JNum (Fin 150)),
      (''label'', JStr [])]"

definition blank_image_poster :: jsval where
  "blank_image_poster = JObj (offwall_poster_fields @ [(''imageSrc'', JStr [])])"

definition pictured_poster :: jsval where
  \<open>pictured_poster = JObj (sample_poster_fields @ [(''imageSrc'', JStr ''data:image/png;base64,AAAA'')])\<close>

section \<open>The guards, case by case\<close>

lemma isString_a_string: "isString v = a_string v"
  by (cases v) (simp_all add: isString_def a_string_def)

lemma isBoolean_a_boolean: "isBoolean v = a_boolean v"
  by (cases v) (simp_all add: isBoolean_def a_boolean_def)

lemma isNumber_a_finite_number: "isNumber v = a_finite_number v"
proof (cases v)
  case (JNum n)
  then show ?thesis by (cases n) (simp_all add: isNumber_def a_finite_number_def)
qed (simp_all add: isNumber_def a_finite_number_def)

lemma isPositiveNumber_a_finite_positive_number:
  "isPositiveNumber v = a_finite_positive_number v"
proof (cases v)
  case (JNum n)
  then show ?thesis
    by (cases n) (simp_all add: isPositiveNumber_def isNumber_def a_finite_positive_number_def)
qed (simp_all add: isPositiveNumber_def isNumber_def a_finite_positive_number_def)

lemma field_is_js_get:
  "P JUndefined = False \<Longrightarrow> isRecord v \<Longrightarrow> field_is v k P = P (js_get v k)"
  by (cases v) (simp_all add: field_is_def own_property_def isRecord_def split: option.split)

lemma field_is_not_record: "\<not> isRecord v \<Longrightarrow> field_is v k P = False"
  by (cases v) (simp_all add: field_is_def own_property_def isRecord_def)

lemma isSettings_spec: "isSettings v = spec_settings_valid v"
proof (cases "isRecord v")
  case True
  then show ?thesis
    by (simp add: isSettings_def spec_settings_valid_def field_is_js_get
        isPositiveNumber_a_finite_positive_number isString_a_string isBoolean_a_boolean
        a_string_def a_boolean_def a_finite_positive_number_def)
next
  case False
  then show ?thesis
    by (simp add: isSettings_def spec_settings_valid_def field_is_not_record)
qed

lemma spec_image_ok_iff:
  "isRecord v \<Longrightarrow>
   spec_image_ok v \<longleftrightarrow> (if js_in ''imageSrc'' v \<and> js_get v ''imageSrc'' \<noteq> JUndefined
                         then isString (js_get v ''imageSrc'') else True)"
  by (cases v) (auto simp: spec_image_ok_def own_property_def isRecord_def isString_def
      split: option.splits jsval.splits)

lemma isPoster_spec: "isPoster v = spec_poster_valid v"
proof (cases "isRecord v")
  case True
  then show ?thesis
    unfolding isPoster_def spec_poster_valid_def
    by (simp add: spec_image_ok_iff field_is_js_get
        isPositiveNumber_a_finite_positive_number isString_a_string isNumber_a_finite_number
        a_string_def a_finite_number_def a_finite_positive_number_def) blast
next
  case False
  then show ?thesis
    by (simp add: isPoster_def spec_poster_valid_def field_is_not_record)
qed

lemma isPoster_id_string: "isPoster p \<Longrightarrow> a_string (js_get p ''id'')"
  by (simp add: isPoster_def isString_a_string split: if_splits)

lemma all_posters_id_string:
  "list_all isPoster ps \<Longrightarrow> list_all a_string (map (\<lambda>poster. js_get poster ''id'') ps)"
  by (induction ps) (simp_all add: isPoster_id_string)

lemma js_get_not_in: "\<not> js_in k v \<Longrightarrow> js_get v k = JUndefined"
  by (cases v) auto

lemma js_get_append_absent:
  "map_of kvs k = None \<Longrightarrow>
   js_get (JObj (kvs @ [(k, x)])) k' = (if k' = k then x else js_get (JObj kvs) k')"
  by (simp add: map_add_def split: option.split)

lemma js_in_append: "js_in k (JObj (kvs @ [(k, x)]))"
  by (simp add: map_add_def split: option.split)

text \<open>Adding an image field to an object that has none.\<close>

lemma isPoster_with_image:
  assumes "map_of kvs ''imageSrc'' = None"
  shows "isPoster (JObj (kvs @ [(''imageSrc'', x)])) \<longleftrightarrow>
         isPoster (JObj kvs) \<and> (x = JUndefined \<or> a_string x)"
proof -
  have r: "isRecord (JObj (kvs @ [(''imageSrc'', x)]))" "isRecord (JObj kvs)"
    by (simp_all add: isRecord_def)
  have g: "js_get (JObj (kvs @ [(''imageSrc'', x)])) ''id'' = js_get (JObj kvs) ''id''"
    "js_get (JObj (kvs @ [(''imageSrc'', x)])) ''sizeId'' = js_get (JObj kvs) ''sizeId''"
    "js_get (JObj (kvs @ [(''imageSrc'', x)])) ''x'' = js_get (JObj kvs) ''x''"
    "js_get (JObj (kvs @ [(''imageSrc'', x)])) ''y'' = js_get (JObj kvs) ''y''"
    "js_get (JObj (kvs @ [(''imageSrc'', x)])) ''width'' = js_get (JObj kvs) ''width''"
    "js_get (JObj (kvs @ [(''imageSrc'', x)])) ''height'' = js_get (JObj kvs) ''height''"
    "js_get (JObj (kvs @ [(''imageSrc'', x)])) ''label'' = js_get (JObj kvs) ''label''"
    using assms by (simp_all add: js_get_append_absent del: js_get.simps)
  have i: "js_get (JObj (kvs @ [(''imageSrc'', x)])) ''imageSrc'' = x"
    using assms by (simp add: js_get_append_absent del: js_get.simps)
  have n: "\<not> js_in ''imageSrc'' (JObj kvs)" using assms by simp
  show ?thesis
    unfolding isPoster_def
    by (simp only: r g i n js_in_append isString_a_string) (auto simp del: js_get.simps)
qed

text \<open>On a validated poster, a truthy image field is a non-empty string.\<close>

lemma isPoster_imageSrc_truthy:
  "isPoster p \<Longrightarrow>
   js_truthy (js_get p ''imageSrc'') = a_nonempty_string (js_get p ''imageSrc'')"
  by (cases "js_get p ''imageSrc''")
     (auto simp: isPoster_def isString_def a_nonempty_string_def js_get_not_in split: if_splits)

lemma filter_truthy_posters:
  "list_all isPoster ps \<Longrightarrow>
   filter (\<lambda>poster. js_truthy (js_get poster ''imageSrc'')) ps =
   filter (\<lambda>poster. a_nonempty_string (js_get poster ''imageSrc'')) ps"
  by (induction ps) (simp_all add: isPoster_imageSrc_truthy)

lemma callbacks_from_posters:
  "(i, img) \<in> set (concat (map (\<lambda>(n, poster).
             case L n (js_get poster ''imageSrc'') of
               Some img \<Rightarrow> [(js_get poster ''id'', img)]
             | None \<Rightarrow> []) (enumerate m xs)))
   \<Longrightarrow> \<exists>poster \<in> set xs. js_get poster ''id'' = i"
  by (induction xs arbitrary: m) (auto split: option.splits)

lemma callbacks_length:
  "length (concat (map (\<lambda>(n, poster).
             case L n (js_get poster ''imageSrc'') of
               Some img \<Rightarrow> [(js_get poster ''id'', img)]
             | None \<Rightarrow> []) (enumerate m xs))) \<le> length xs"
  by (induction xs arbitrary: m) (auto split: option.splits intro: le_SucI)

section \<open>What the JSON round trip keeps\<close>

lemma map_of_json_image:
  "distinct (map fst kvs) \<Longrightarrow>
   map_of (map (\<lambda>(k, v). (k, json_image v)) (filter (\<lambda>(k, v). v \<noteq> JUndefined) kvs)) k =
     (case map_of kvs k of None \<Rightarrow> None | Some JUndefined \<Rightarrow> None
      | Some v \<Rightarrow> Some (json_image v))"
proof (induction kvs)
  case Nil
  then show ?case by simp
next
  case (Cons kv kvs)
  obtain k' x where kv: "kv = (k', x)" by (cases kv)
  from Cons.prems kv have absent: "map_of kvs k' = None"
    by (simp add: map_of_eq_None_iff)
  from Cons.prems have d: "distinct (map fst kvs)" by simp
  show ?case
  proof (cases "k = k'")
    case True
    with absent Cons.IH [OF d] kv show ?thesis
      by (cases x) simp_all
  next
    case False
    with Cons.IH [OF d] kv show ?thesis by simp
  qed
qed

lemma js_get_json_image:
  "js_object v \<Longrightarrow> js_get (json_image v) k = json_image (js_get v k)"
  by (cases v) (simp_all add: js_object_def map_of_json_image split: option.split jsval.split)

lemma js_object_json_image: "js_object v \<Longrightarrow> js_object (json_image v)"
proof (cases v)
  case (JObj kvs)
  have fst_eq: "fst \<circ> (\<lambda>(k, v). (k, json_image v)) = fst"
    by (rule ext) (simp add: case_prod_beta)
  assume "js_object v"
  with JObj show ?thesis
    by (simp add: js_object_def fst_eq distinct_map_filter)
qed (simp_all add: js_object_def)

lemma js_object_isRecord: "js_object v \<Longrightarrow> isRecord v"
  by (cases v) (simp_all add: js_object_def isRecord_def)

lemma finite_positive_num_image:
  "finite_positive_num n \<Longrightarrow> json_image (JNum n) = JNum n \<and> isPositiveNumber (JNum n)"
  by (cases n) (simp_all add: isPositiveNumber_def isNumber_def)

lemma finite_num_image:
  "finite_num n \<Longrightarrow> json_image (JNum n) = JNum n \<and> isNumber (JNum n)"
  by (cases n) (simp_all add: isNumber_def)

lemma represents_Settings_image:
  assumes "represents_Settings v s" and "valid_Settings s"
  shows "represents_Settings (json_image v) s \<and> isSettings (json_image v)"
proof -
  from assms(1) have obj: "js_object v" by (simp add: represents_Settings_def)
  note get = js_get_json_image [OF obj]
  from assms show ?thesis
    by (simp add: represents_Settings_def valid_Settings_def isSettings_def get
        js_object_json_image js_object_isRecord finite_positive_num_image
        isString_def isBoolean_def)
qed

lemma represents_WallPoster_image:
  assumes "represents_WallPoster v p" and "valid_WallPoster p"
  shows "represents_WallPoster (json_image v) p \<and> isPoster (json_image v)"
proof -
  from assms(1) have obj: "js_object v" by (simp add: represents_WallPoster_def)
  note get = js_get_json_image [OF obj]
  from assms show ?thesis
    by (simp add: represents_WallPoster_def valid_WallPoster_def isPoster_def get
        js_object_json_image js_object_isRecord finite_positive_num_image finite_num_image
        isString_def split: option.split)
qed

lemma represents_posters_image:
  assumes "list_all2 represents_WallPoster vs ps" and "list_all valid_WallPoster ps"
  shows "list_all2 represents_WallPoster
           (map (\<lambda>v. if v = JUndefined then JNull else json_image v) vs) ps \<and>
         list_all isPoster (map (\<lambda>v. if v = JUndefined then JNull else json_image v) vs)"
  using assms
proof (induction vs ps rule: list_all2_induct)
  case Nil
  then show ?case by simp
next
  case (Cons v vs p ps)
  from Cons.hyps(1) have "v \<noteq> JUndefined"
    by (auto simp: represents_WallPoster_def js_object_def)
  with Cons represents_WallPoster_image [of v p] show ?case by simp
qed

section \<open>The sample documents, evaluated\<close>

lemma trim_array_text: "trim ''[]'' = ''[]''"
  by (simp add: trim_def is_js_whitespace_def)

lemma parse_array_text: "sample_JSON_parse ''[]'' = Some (JArr [])"
  by (simp add: sample_JSON_parse_def)

lemma trim_null_text: "trim '' null '' = ''null''"
  by (simp add: trim_def is_js_whitespace_def)

lemma parse_null_text: "sample_JSON_parse ''null'' = Some JNull"
  by (simp add: sample_JSON_parse_def)

lemma trim_nullpair_text:
  \<open>trim '' {"settings":null,"posters":null} '' = ''{"settings":null,"posters":null}''\<close>
  by (simp add: trim_def is_js_whitespace_def)

lemma parse_nullpair_text:
  \<open>sample_JSON_parse ''{"settings":null,"posters":null}'' =
     Some (JObj [(''settings'', JNull), (''posters'', JNull)])\<close>
  by (simp add: sample_JSON_parse_def)

lemma trim_bare_text: "trim bare_text = bare_text"
  by (simp add: trim_def is_js_whitespace_def bare_text_def)

lemma trim_sample_text: "trim sample_text = sample_text"
  by (simp add: trim_def is_js_whitespace_def sample_text_def)

lemma trim_twin_text: "trim twin_text = twin_text"
  by (simp add: trim_def is_js_whitespace_def twin_text_def)

lemma bare_text_nonempty: "bare_text \<noteq> []"
  by (simp add: bare_text_def)

lemma sample_text_nonempty: "sample_text \<noteq> []"
  by (simp add: sample_text_def)

lemma twin_text_nonempty: "twin_text \<noteq> []"
  by (simp add: twin_text_def)

lemma parse_bare_text:
  "sample_JSON_parse bare_text =
     Some (JObj [(''settings'', sample_settings), (''posters'', JArr [])])"
  by (simp add: sample_JSON_parse_def bare_text_def sample_text_def twin_text_def)

lemma parse_sample_text:
  "sample_JSON_parse sample_text =
     Some (JObj [(''settings'', sample_settings), (''posters'', JArr [sample_poster])])"
  by (simp add: sample_JSON_parse_def sample_text_def)

lemma parse_twin_text:
  "sample_JSON_parse twin_text =
     Some (JObj [(''settings'', sample_settings),
                 (''posters'', JArr [sample_poster, sample_poster])])"
  by (simp add: sample_JSON_parse_def sample_text_def twin_text_def)

lemma isSettings_sample: "isSettings sample_settings"
  by (simp add: isSettings_def sample_settings_def isRecord_def isPositiveNumber_def
      isNumber_def isString_def isBoolean_def)

lemma isSettings_blank: "isSettings blank_settings"
  by (simp add: isSettings_def blank_settings_def isRecord_def isPositiveNumber_def
      isNumber_def isString_def isBoolean_def)

lemma isPoster_sample: "isPoster sample_poster"
  by (simp add: isPoster_def sample_poster_def sample_poster_fields_def isRecord_def
      isPositiveNumber_def isNumber_def isString_def)

lemma parseWallData_sample_text:
  "parseWallData sample_JSON_parse sample_text =
     \<lparr>data = Some \<lparr>settings = sample_settings, posters = JArr [sample_poster]\<rparr>, error = None\<rparr>"
  by (simp add: parseWallData_def trim_sample_text sample_text_nonempty parse_sample_text
      isSettings_sample isPoster_sample isRecord_def)

lemma parseWallData_twin_text:
  "parseWallData sample_JSON_parse twin_text =
     \<lparr>data = Some \<lparr>settings = sample_settings, posters = JArr [sample_poster, sample_poster]\<rparr>,
      error = None\<rparr>"
  by (simp add: parseWallData_def trim_twin_text twin_text_nonempty parse_twin_text
      isSettings_sample isPoster_sample isRecord_def)

lemma trim_pretty_text: "trim pretty_text = pretty_text"
  by (simp add: trim_def is_js_whitespace_def pretty_text_def)

lemma pretty_text_nonempty: "pretty_text \<noteq> []"
  by (simp add: pretty_text_def)

lemma parse_pretty_text:
  "sample_JSON_parse pretty_text =
     Some (JObj [(''settings'', sample_settings), (''posters'', JArr [sample_poster])])"
  by (simp add: sample_JSON_parse_def pretty_text_def sample_text_def twin_text_def bare_text_def)

lemma json_image_memory_document:
  "json_image memory_document =
     JObj [(''settings'', sample_settings), (''posters'', JArr [sample_poster])]"
  by (simp add: memory_document_def sample_settings_def sample_poster_def sample_poster_fields_def)

lemma represents_memory_document: "represents_WallDocument memory_document typed_document"
  by (simp add: represents_WallDocument_def represents_Settings_def represents_WallPoster_def
      memory_document_def typed_document_def sample_settings_def sample_poster_fields_def
      js_object_def)

lemma valid_typed_document: "valid_WallDocument typed_document"
  by (simp add: valid_WallDocument_def valid_Settings_def valid_WallPoster_def typed_document_def)

lemma isPoster_blank_image: "isPoster blank_image_poster"
  by (simp add: isPoster_def blank_image_poster_def offwall_poster_fields_def isRecord_def
      isPositiveNumber_def isNumber_def isString_def)

lemma isPoster_pictured: "isPoster pictured_poster"
  by (simp add: isPoster_def pictured_poster_def sample_poster_fields_def isRecord_def
      isPositiveNumber_def isNumber_def isString_def)

section \<open>The root check\<close>

text \<open>
  Claim C1, as amended. When the trimmed input parses to a string, a number, a boolean or
  \<open>null\<close>, parseWallData returns the reason invalid-root and no document. (An array is
  not among them: \<open>isRecord\<close> accepts it, see the counterexample.)
\<close>

theorem scalar_root_invalid:
  assumes "trim s \<noteq> []" and "JSON_parse (trim s) = Some parsed" and "a_scalar_or_null parsed"
  shows "parseWallData JSON_parse s = \<lparr>data = None, error = Some InvalidRoot\<rparr>"
proof -
  from assms(3) have "\<not> isRecord parsed"
    by (cases parsed) (simp_all add: isRecord_def a_scalar_or_null_def)
  with assms(1,2) show ?thesis
    by (simp add: parseWallData_def)
qed

theorem scalar_root_invalid_witness:
  "trim '' null '' \<noteq> [] \<and> sample_JSON_parse (trim '' null '') = Some JNull \<and>
   a_scalar_or_null JNull \<and>
   parseWallData sample_JSON_parse '' null '' = \<lparr>data = None, error = Some InvalidRoot\<rparr>"
proof -
  have h1: "trim '' null '' \<noteq> []" by (simp add: trim_null_text)
  have h2: "sample_JSON_parse (trim '' null '') = Some JNull"
    by (simp add: trim_null_text parse_null_text)
  have h3: "a_scalar_or_null JNull" by (simp add: a_scalar_or_null_def)
  from scalar_root_invalid [of "'' null ''" sample_JSON_parse JNull, OF h1 h2 h3] h1 h2 h3
  show ?thesis by simp
qed

text \<open>
  The claim as the specification states it includes arrays. The text \<open>[]\<close> parses to
  the empty array, an array passes \<open>isRecord\<close>, its \<open>settings\<close> reads as \<open>undefined\<close>,
  and the reason is invalid-settings, not invalid-root.
\<close>

theorem array_root_counterexample:
  "sample_JSON_parse (trim ''[]'') = Some (JArr []) \<and> Array_isArray (JArr []) \<and>
   parseWallData sample_JSON_parse ''[]'' = \<lparr>data = None, error = Some InvalidSettings\<rparr> \<and>
   parseWallData sample_JSON_parse ''[]'' \<noteq> \<lparr>data = None, error = Some InvalidRoot\<rparr>"
  by (simp add: parseWallData_def trim_array_text parse_array_text isRecord_def isSettings_def)

section \<open>The order of the stages\<close>

lemma isPoster_spec_fun: "isPoster = spec_poster_valid"
  by (rule ext) (rule isPoster_spec)

lemma isRecord_structured:
  "\<not> Array_isArray v \<Longrightarrow> isRecord v = a_structured_object v"
  by (cases v) (simp_all add: isRecord_def a_structured_object_def)

text \<open>
  Claim C2, as amended. When the trimmed input does not parse to an array, the reason
  parseWallData reports is the first, in the order empty, invalid-json, invalid-root,
  invalid-settings, invalid-posters, of the reasons that apply to the input (and none when
  none applies). For every input, when the root is an object whose settings are invalid
  the reason is invalid-settings, whatever the posters are.
\<close>

theorem parseWallData_first_reason:
  "(\<not> parses_to_array JSON_parse s \<longrightarrow>
      error (parseWallData JSON_parse s) =
        find (reason_applies JSON_parse s)
          [Empty, InvalidJson, InvalidRoot, InvalidSettings, InvalidPosters]) \<and>
   (trim s \<noteq> [] \<longrightarrow> JSON_parse (trim s) = Some parsed \<longrightarrow> isRecord parsed \<longrightarrow>
      \<not> spec_settings_valid (js_get parsed ''settings'') \<longrightarrow>
      parseWallData JSON_parse s = \<lparr>data = None, error = Some InvalidSettings\<rparr>)"
proof (intro conjI impI)
  assume na: "\<not> parses_to_array JSON_parse s"
  show "error (parseWallData JSON_parse s) =
        find (reason_applies JSON_parse s)
          [Empty, InvalidJson, InvalidRoot, InvalidSettings, InvalidPosters]"
  proof (cases "JSON_parse (trim s)")
    case None
    then show ?thesis by (simp add: parseWallData_def)
  next
    case (Some v)
    with na have "\<not> Array_isArray v" by (simp add: parses_to_array_def)
    then have "isRecord v = a_structured_object v" by (rule isRecord_structured)
    with Some show ?thesis
      by (simp add: parseWallData_def Let_def isSettings_spec isPoster_spec_fun)
  qed
next
  assume "trim s \<noteq> []" "JSON_parse (trim s) = Some parsed" "isRecord parsed"
    "\<not> spec_settings_valid (js_get parsed ''settings'')"
  then show "parseWallData JSON_parse s = \<lparr>data = None, error = Some InvalidSettings\<rparr>"
    by (simp add: parseWallData_def Let_def isSettings_spec)
qed

theorem parseWallData_first_reason_witness:
  \<open>\<not> parses_to_array sample_JSON_parse '' {"settings":null,"posters":null} '' \<and>
   reason_applies sample_JSON_parse '' {"settings":null,"posters":null} '' InvalidSettings \<and>
   reason_applies sample_JSON_parse '' {"settings":null,"posters":null} '' InvalidPosters \<and>
   find (reason_applies sample_JSON_parse '' {"settings":null,"posters":null} '')
     [Empty, InvalidJson, InvalidRoot, InvalidSettings, InvalidPosters] = Some InvalidSettings \<and>
   parseWallData sample_JSON_parse '' {"settings":null,"posters":null} '' =
     \<lparr>data = None, error = Some InvalidSettings\<rparr>\<close>
proof -
  have bad: "\<not> spec_settings_valid JNull"
    by (simp add: spec_settings_valid_def field_is_def own_property_def)
  from parseWallData_first_reason [of sample_JSON_parse
      \<open>'' {"settings":null,"posters":null} ''\<close>
      "JObj [(''settings'', JNull), (''posters'', JNull)]"] bad
  show ?thesis
    by (simp add: trim_nullpair_text parse_nullpair_text isRecord_def parses_to_array_def
        a_structured_object_def)
qed

text \<open>
  The claim as the specification states it covers every input. The text \<open>[]\<close> parses to
  the empty array, so the first of the reasons that apply is invalid-root, and the reason
  reported is invalid-settings.
\<close>

theorem array_first_reason_counterexample:
  "find (reason_applies sample_JSON_parse ''[]'')
     [Empty, InvalidJson, InvalidRoot, InvalidSettings, InvalidPosters] = Some InvalidRoot \<and>
   error (parseWallData sample_JSON_parse ''[]'') = Some InvalidSettings"
  by (simp add: parseWallData_def trim_array_text parse_array_text isRecord_def isSettings_def
      a_structured_object_def)

section \<open>Settings and posters\<close>

text \<open>
  Claim C3. When the trimmed input parses to an object, parseWallData reports
  invalid-settings, with no document, exactly when the settings field is not valid in the
  specification's sense: wallWidth, wallHeight and gridStep present, finite numbers and
  greater than zero, background and gridColor present and strings, showGrid present and a
  boolean. Nothing is defaulted.
\<close>

theorem invalid_settings_iff:
  assumes "trim s \<noteq> []" and "JSON_parse (trim s) = Some parsed" and "isRecord parsed"
  shows "(parseWallData JSON_parse s = \<lparr>data = None, error = Some InvalidSettings\<rparr>
            \<longleftrightarrow> \<not> spec_settings_valid (js_get parsed ''settings'')) \<and>
         (error (parseWallData JSON_parse s) = Some InvalidSettings
            \<longleftrightarrow> \<not> spec_settings_valid (js_get parsed ''settings''))"
  using assms by (simp add: parseWallData_def Let_def isSettings_spec)

theorem invalid_settings_iff_witness:
  \<open>isRecord (JObj [(''settings'', JNull), (''posters'', JNull)]) \<and>
   \<not> spec_settings_valid JNull \<and>
   parseWallData sample_JSON_parse '' {"settings":null,"posters":null} '' =
     \<lparr>data = None, error = Some InvalidSettings\<rparr>\<close>
proof -
  have h1: \<open>trim '' {"settings":null,"posters":null} '' \<noteq> []\<close>
    by (simp add: trim_nullpair_text)
  have h2: \<open>sample_JSON_parse (trim '' {"settings":null,"posters":null} '') =
              Some (JObj [(''settings'', JNull), (''posters'', JNull)])\<close>
    by (simp add: trim_nullpair_text parse_nullpair_text)
  have h3: "isRecord (JObj [(''settings'', JNull), (''posters'', JNull)])"
    by (simp add: isRecord_def)
  have bad: "\<not> spec_settings_valid JNull"
    by (simp add: spec_settings_valid_def field_is_def own_property_def)
  from invalid_settings_iff [of \<open>'' {"settings":null,"posters":null} ''\<close>
      sample_JSON_parse "JObj [(''settings'', JNull), (''posters'', JNull)]", OF h1 h2 h3] h3 bad
  show ?thesis by simp
qed

text \<open>
  Claim C4. A value validates as a poster exactly when it is valid in the specification's
  sense: id, sizeId and label present and strings, x and y present and finite numbers (of
  any sign and size), width and height present, finite and greater than zero, and the
  image field absent, \<open>undefined\<close> or a string. Given an object without the image field,
  adding the field with \<open>undefined\<close> or with a string does not change whether it
  validates, and adding it with any other value, such as \<open>null\<close>, makes it fail.
\<close>

theorem poster_validates_iff:
  "(isPoster v \<longleftrightarrow> spec_poster_valid v) \<and>
   (map_of kvs ''imageSrc'' = None \<longrightarrow>
      isPoster (JObj (kvs @ [(''imageSrc'', JUndefined)])) = isPoster (JObj kvs) \<and>
      isPoster (JObj (kvs @ [(''imageSrc'', JStr src)])) = isPoster (JObj kvs) \<and>
      (x \<noteq> JUndefined \<longrightarrow> \<not> a_string x \<longrightarrow> \<not> isPoster (JObj (kvs @ [(''imageSrc'', x)]))))"
  by (simp add: isPoster_spec [symmetric] isPoster_with_image a_string_def)

theorem poster_validates_iff_witness:
  "map_of offwall_poster_fields ''imageSrc'' = None \<and>
   spec_poster_valid (JObj offwall_poster_fields) \<and>
   isPoster (JObj offwall_poster_fields) \<and>
   isPoster (JObj (offwall_poster_fields @ [(''imageSrc'', JUndefined)])) \<and>
   isPoster (JObj (offwall_poster_fields @ [(''imageSrc'', JStr ''data:,'')])) \<and>
   \<not> isPoster (JObj (offwall_poster_fields @ [(''imageSrc'', JNull)]))"
proof -
  have absent: "map_of offwall_poster_fields ''imageSrc'' = None"
    by (simp add: offwall_poster_fields_def)
  have ok: "isPoster (JObj offwall_poster_fields)"
    by (simp add: isPoster_def offwall_poster_fields_def isRecord_def isPositiveNumber_def
        isNumber_def isString_def)
  from poster_validates_iff [of "JObj offwall_poster_fields" offwall_poster_fields
      "''data:,''" JNull] absent ok
  show ?thesis by (simp add: a_string_def)
qed

section \<open>Export, then import\<close>

text \<open>
  Claim C5. Take a document in memory that is a valid typed wall document, and let the
  runtime's \<open>JSON.stringify\<close> give a text that does not trim to nothing and that
  \<open>JSON.parse\<close> reads back as ECMAScript promises. Then parseWallData on that text
  succeeds, returns the settings and the posters that were read back, and these are the
  same typed settings and the same typed posters in the same order.
\<close>

theorem export_import_round_trip:
  assumes rep: "represents_WallDocument v d" and valid: "valid_WallDocument d"
    and nonempty: "trim (JSON_stringify v) \<noteq> []"
    and builtin: "JSON_parse (trim (JSON_stringify v)) = Some (json_image v)"
  shows "parseWallData JSON_parse (JSON_stringify v) =
           \<lparr>data = Some \<lparr>settings = json_image (js_get v ''settings''),
                         posters = json_image (js_get v ''posters'')\<rparr>, error = None\<rparr> \<and>
         represents_Settings (json_image (js_get v ''settings'')) (doc_settings d) \<and>
         Array_isArray (json_image (js_get v ''posters'')) \<and>
         list_all2 represents_WallPoster
           (array_elems (json_image (js_get v ''posters''))) (doc_posters d)"
proof -
  from rep have obj: "js_object v" by (simp add: represents_WallDocument_def)
  note get = js_get_json_image [OF obj]
  from rep valid
  have st: "represents_Settings (json_image (js_get v ''settings'')) (doc_settings d)"
      "isSettings (json_image (js_get v ''settings''))"
    using represents_Settings_image [of "js_get v ''settings''" "doc_settings d"]
    by (simp_all add: represents_WallDocument_def valid_WallDocument_def)
  from rep obtain vs where vs: "js_get v ''posters'' = JArr vs"
    by (cases "js_get v ''posters''") (simp_all add: represents_WallDocument_def)
  with rep valid
  have ps: "list_all2 represents_WallPoster
           (map (\<lambda>v. if v = JUndefined then JNull else json_image v) vs) (doc_posters d)"
     "list_all isPoster (map (\<lambda>v. if v = JUndefined then JNull else json_image v) vs)"
    using represents_posters_image [of vs "doc_posters d"]
    by (simp_all add: represents_WallDocument_def valid_WallDocument_def)
  have rec: "isRecord (json_image v)"
    using obj by (simp add: js_object_json_image js_object_isRecord)
  have res: "parseWallData JSON_parse (JSON_stringify v) =
     \<lparr>data = Some \<lparr>settings = json_image (js_get v ''settings''),
                   posters = json_image (js_get v ''posters'')\<rparr>, error = None\<rparr>"
    using nonempty builtin rec st(2) ps(2) vs
    by (simp add: parseWallData_def get)
  show ?thesis
    using st(1) ps(1) vs by (simp add: res)
qed

theorem export_import_round_trip_witness:
  "represents_WallDocument memory_document typed_document \<and>
   valid_WallDocument typed_document \<and>
   parseWallData sample_JSON_parse (sample_JSON_stringify memory_document) =
     \<lparr>data = Some \<lparr>settings = sample_settings, posters = JArr [sample_poster]\<rparr>, error = None\<rparr> \<and>
   list_all2 represents_WallPoster [sample_poster] (doc_posters typed_document)"
proof -
  have out: "sample_JSON_stringify memory_document = pretty_text"
    by (simp add: sample_JSON_stringify_def)
  have h3: "trim (sample_JSON_stringify memory_document) \<noteq> []"
    by (simp add: out trim_pretty_text pretty_text_nonempty)
  have h4: "sample_JSON_parse (trim (sample_JSON_stringify memory_document)) =
              Some (json_image memory_document)"
    by (simp add: out trim_pretty_text parse_pretty_text json_image_memory_document)
  have img: "json_image (js_get memory_document ''settings'') = sample_settings"
     "json_image (js_get memory_document ''posters'') = JArr [sample_poster]"
    by (simp_all add: memory_document_def sample_settings_def sample_poster_def
        sample_poster_fields_def)
  from export_import_round_trip [of memory_document typed_document sample_JSON_stringify
      sample_JSON_parse, OF represents_memory_document valid_typed_document h3 h4]
    represents_memory_document valid_typed_document
  show ?thesis by (simp add: img)
qed

section \<open>The result carries exactly one of document and reason\<close>

text \<open>
  Claim C6. For every input string, and whatever JSON.parse does, the result of
  parseWallData has exactly one of its two fields \<open>data\<close> and \<open>error\<close> equal to null:
  either a document and no reason, or a reason and no document.
\<close>

theorem parseWallData_exactly_one:
  "(data (parseWallData JSON_parse jsonText) = None) \<noteq>
   (error (parseWallData JSON_parse jsonText) = None)"
  by (simp add: parseWallData_def Let_def split: option.split)

theorem parseWallData_exactly_one_witness:
  "data (parseWallData sample_JSON_parse sample_text) \<noteq> None \<and>
   error (parseWallData sample_JSON_parse sample_text) = None"
  using parseWallData_exactly_one [of sample_JSON_parse sample_text]
  by (simp add: parseWallData_sample_text)

section \<open>What a successful import returns\<close>

text \<open>
  Claim C7. When parseWallData succeeds, its document holds the \<open>settings\<close> value and
  the \<open>posters\<close> array of the parsed input, unchanged, so the posters keep their order.
  When the parsed input has valid settings and an empty posters array, parseWallData
  succeeds and returns those settings and the empty array.
\<close>

theorem parseWallData_success_data:
  "(JSON_parse (trim s) = Some parsed \<longrightarrow> error (parseWallData JSON_parse s) = None \<longrightarrow>
      data (parseWallData JSON_parse s) =
        Some \<lparr>settings = js_get parsed ''settings'', posters = js_get parsed ''posters''\<rparr> \<and>
      Array_isArray (js_get parsed ''posters'')) \<and>
   (trim s \<noteq> [] \<longrightarrow> JSON_parse (trim s) = Some parsed \<longrightarrow> isRecord parsed \<longrightarrow>
      isSettings (js_get parsed ''settings'') \<longrightarrow> js_get parsed ''posters'' = JArr [] \<longrightarrow>
      parseWallData JSON_parse s =
        \<lparr>data = Some \<lparr>settings = js_get parsed ''settings'', posters = JArr []\<rparr>, error = None\<rparr>)"
  by (simp add: parseWallData_def Let_def split: if_splits)

theorem parseWallData_success_data_witness:
  "parseWallData sample_JSON_parse bare_text =
     \<lparr>data = Some \<lparr>settings = sample_settings, posters = JArr []\<rparr>, error = None\<rparr>"
  using parseWallData_success_data [of sample_JSON_parse bare_text
      "JObj [(''settings'', sample_settings), (''posters'', JArr [])]"]
  by (simp add: trim_bare_text bare_text_nonempty parse_bare_text isSettings_sample isRecord_def)

section \<open>Invariants of an accepted document\<close>

text \<open>
  Claim C8, as amended. Every settings value that \<open>isSettings\<close> accepts has wallWidth,
  wallHeight and gridStep finite and greater than zero, and background and gridColor
  strings, which may be empty.
\<close>

theorem accepted_settings_string_colours:
  "isSettings v \<Longrightarrow> WallSettings_string_colours v"
  by (simp add: isSettings_spec spec_settings_valid_def WallSettings_string_colours_def)

theorem accepted_settings_string_colours_witness:
  "isSettings blank_settings \<and> WallSettings_string_colours blank_settings"
  using accepted_settings_string_colours [OF isSettings_blank] isSettings_blank by simp

text \<open>
  The invariant as the data model states it asks for non-empty colours. Settings whose
  background is the empty string are accepted.
\<close>

theorem blank_background_counterexample:
  "isSettings blank_settings \<and> \<not> WallSettings_invariant blank_settings"
  by (simp add: isSettings_blank)
     (simp add: WallSettings_invariant_def blank_settings_def field_is_def own_property_def
      a_nonempty_string_def)

text \<open>
  Claim C9, as amended. Every poster of a document that parseWallData accepts has a string
  as its identifier. (Nothing compares the identifiers of two posters.)
\<close>

theorem accepted_ids_are_strings:
  "data (parseWallData JSON_parse s) = Some d \<Longrightarrow> list_all a_string (poster_ids (posters d))"
  by (auto simp: parseWallData_def Let_def poster_ids_def all_posters_id_string
      split: if_splits option.splits)

theorem accepted_ids_are_strings_witness:
  "data (parseWallData sample_JSON_parse twin_text) =
     Some \<lparr>settings = sample_settings, posters = JArr [sample_poster, sample_poster]\<rparr> \<and>
   list_all a_string (poster_ids (JArr [sample_poster, sample_poster]))"
proof -
  have d: "data (parseWallData sample_JSON_parse twin_text) =
     Some \<lparr>settings = sample_settings, posters = JArr [sample_poster, sample_poster]\<rparr>"
    by (simp add: parseWallData_twin_text)
  from accepted_ids_are_strings [OF d] d show ?thesis by simp
qed

text \<open>
  The claim as the specification states it asks for pairwise distinct identifiers. A
  document with the same poster twice is accepted.
\<close>

theorem twin_ids_counterexample:
  "parseWallData sample_JSON_parse twin_text =
     \<lparr>data = Some \<lparr>settings = sample_settings, posters = JArr [sample_poster, sample_poster]\<rparr>,
      error = None\<rparr> \<and>
   \<not> distinct (poster_ids (JArr [sample_poster, sample_poster]))"
  by (simp add: parseWallData_twin_text poster_ids_def)

section \<open>Loading the images\<close>

text \<open>
  Claim C10. On validated posters, loadPosterImages calls \<open>loadImageFromSrc\<close> exactly
  for the posters whose \<open>imageSrc\<close> is a non-empty string, in order, and every call of
  the callback carries the identifier of such a poster; there is at most one callback per
  load. A validated poster whose \<open>imageSrc\<close> is absent, \<open>undefined\<close> or the empty
  string adds nothing. The empty string does pass validation: giving an object without
  the image field the image \<open>""\<close> does not change whether it validates.
\<close>

theorem loadPosterImages_nonempty_only:
  assumes "list_all isPoster ps"
  shows "requested (loadPosterImages L ps) =
           map (\<lambda>poster. js_get poster ''imageSrc'')
             (filter (\<lambda>poster. a_nonempty_string (js_get poster ''imageSrc'')) ps) \<and>
         (\<forall>(i, img) \<in> set (callbacks (loadPosterImages L ps)).
            \<exists>poster \<in> set ps. js_get poster ''id'' = i \<and>
               a_nonempty_string (js_get poster ''imageSrc'')) \<and>
         length (callbacks (loadPosterImages L ps)) \<le> length (requested (loadPosterImages L ps)) \<and>
         (\<not> a_nonempty_string (js_get p ''imageSrc'') \<longrightarrow> isPoster p \<longrightarrow>
            loadPosterImages L (p # ps) = loadPosterImages L ps) \<and>
         (map_of kvs ''imageSrc'' = None \<longrightarrow>
            isPoster (JObj (kvs @ [(''imageSrc'', JStr [])])) = isPoster (JObj kvs))"
proof -
  let ?loading = "filter (\<lambda>poster. a_nonempty_string (js_get poster ''imageSrc'')) ps"
  have f: "filter (\<lambda>poster. js_truthy (js_get poster ''imageSrc'')) ps = ?loading"
    using assms by (rule filter_truthy_posters)
  have 1: "requested (loadPosterImages L ps) = map (\<lambda>poster. js_get poster ''imageSrc'') ?loading"
    by (simp add: loadPosterImages_def Let_def f)
  have 2: "\<forall>(i, img) \<in> set (callbacks (loadPosterImages L ps)).
            \<exists>poster \<in> set ps. js_get poster ''id'' = i \<and>
               a_nonempty_string (js_get poster ''imageSrc'')"
  proof (clarify)
    fix i img assume "(i, img) \<in> set (callbacks (loadPosterImages L ps))"
    then obtain poster where "poster \<in> set ?loading" "js_get poster ''id'' = i"
      using callbacks_from_posters [of i img L 0 ?loading]
      by (auto simp: loadPosterImages_def Let_def f)
    then show "\<exists>poster \<in> set ps. js_get poster ''id'' = i \<and>
               a_nonempty_string (js_get poster ''imageSrc'')"
      by auto
  qed
  have 3: "length (callbacks (loadPosterImages L ps)) \<le> length (requested (loadPosterImages L ps))"
    using callbacks_length [of L 0 ?loading] by (simp add: loadPosterImages_def Let_def f)
  have 4: "\<not> a_nonempty_string (js_get p ''imageSrc'') \<longrightarrow> isPoster p \<longrightarrow>
            loadPosterImages L (p # ps) = loadPosterImages L ps"
    by (simp add: loadPosterImages_def Let_def isPoster_imageSrc_truthy)
  have 5: "map_of kvs ''imageSrc'' = None \<longrightarrow>
            isPoster (JObj (kvs @ [(''imageSrc'', JStr [])])) = isPoster (JObj kvs)"
    by (simp add: isPoster_with_image a_string_def)
  from 1 2 3 4 5 show ?thesis by blast
qed

theorem loadPosterImages_nonempty_only_witness:
  \<open>list_all isPoster [sample_poster, pictured_poster] \<and> isPoster blank_image_poster \<and>
   js_get blank_image_poster ''imageSrc'' = JStr [] \<and>
   loadPosterImages (\<lambda>n src. Some n) [blank_image_poster, sample_poster, pictured_poster] =
     loadPosterImages (\<lambda>n src. Some n) [sample_poster, pictured_poster] \<and>
   requested (loadPosterImages (\<lambda>n src. Some n) [sample_poster, pictured_poster]) =
     [JStr ''data:image/png;base64,AAAA'']\<close>
proof -
  have h: "list_all isPoster [sample_poster, pictured_poster]"
    by (simp add: isPoster_sample isPoster_pictured)
  have e: "js_get blank_image_poster ''imageSrc'' = JStr []"
    by (simp add: blank_image_poster_def offwall_poster_fields_def)
  have s: "js_get sample_poster ''imageSrc'' = JUndefined"
    by (simp add: sample_poster_def sample_poster_fields_def)
  have p: \<open>js_get pictured_poster ''imageSrc'' = JStr ''data:image/png;base64,AAAA''\<close>
    by (simp add: pictured_poster_def sample_poster_fields_def)
  from loadPosterImages_nonempty_only [OF h, of "\<lambda>n src. Some n" blank_image_poster]
    h isPoster_blank_image e
  show ?thesis by (simp add: a_nonempty_string_def s p)
qed

end
